theory Spec2Isabelle
  imports Main "HOL-Library.Code_Target_Numeral"
begin

section \<open>JavaScript values, objects and errors\<close>

text \<open>
  The server is JavaScript, so the values that flow through the request handler are
  dynamically typed. Only the shapes the handler can meet are modelled: the primitive
  values, arrays, plain objects (property lists) and thrown \<open>Error\<close> objects. A string
  is a list of characters, one character standing for one code unit below 256.
\<close>

datatype jsval =
    JUndefined | JNull | JBool bool | JNum int | JStr string | JArr "jsval list"

type_synonym jsobj = "(string \<times> jsval) list"

text \<open>Reading a property: a missing property reads as \<open>undefined\<close>.\<close>

definition get_prop :: "jsobj \<Rightarrow> string \<Rightarrow> jsval" where
  "get_prop obj k = (case map_of obj k of None \<Rightarrow> JUndefined | Some v \<Rightarrow> v)"

text \<open>
  \<open>JSON.stringify\<close>, which \<open>res.json\<close> applies to the body: a property whose value
  is \<open>undefined\<close> is left out of the serialised object.
\<close>

definition json_props :: "jsobj \<Rightarrow> jsobj" where
  "json_props obj = filter (\<lambda>kv. snd kv \<noteq> JUndefined) obj"

text \<open>Truthiness, and \<open>a || b\<close>: the first operand when it is truthy, else the second.\<close>

definition truthy :: "jsval \<Rightarrow> bool" where
  "truthy v =
     (case v of
        JUndefined \<Rightarrow> False
      | JNull \<Rightarrow> False
      | JBool b \<Rightarrow> b
      | JNum n \<Rightarrow> n \<noteq> 0
      | JStr s \<Rightarrow> s \<noteq> []
      | JArr xs \<Rightarrow> True)"

definition js_or :: "jsval \<Rightarrow> jsval \<Rightarrow> jsval" where
  "js_or a b = (if truthy a then a else b)"

datatype js_error = JsError (err_name: string) (err_message: string)

text \<open>\<open>String(err)\<close>, that is \<open>Error.prototype.toString\<close>.\<close>

definition error_to_string :: "js_error \<Rightarrow> string" where
  "error_to_string e =
     (if err_name e = [] then err_message e
      else if err_message e = [] then err_name e
      else err_name e @ '': '' @ err_message e)"

section \<open>Strings and paths\<close>

text \<open>
  \<open>String.prototype.trim\<close> removes white space and line terminators from both ends;
  below 256 these are TAB, LF, VT, FF, CR, SP and NBSP.
\<close>

definition js_whitespace :: "char \<Rightarrow> bool" where
  "js_whitespace c \<longleftrightarrow>
     c \<in> set [CHR 0x09, CHR 0x0A, CHR 0x0B, CHR 0x0C, CHR 0x0D, CHR 0x20, CHR 0xA0]"

definition trim :: "string \<Rightarrow> string" where
  "trim s = rev (dropWhile js_whitespace (rev (dropWhile js_whitespace s)))"

text \<open>
  The method call \<open>v.trim()\<close> on a value: only a string has the method. On a number,
  a boolean or an array the property \<open>trim\<close> is \<open>undefined\<close> and the call is a
  \<open>TypeError\<close>; on \<open>undefined\<close> and \<open>null\<close> reading the property already is.
\<close>

definition js_trim :: "jsval \<Rightarrow> js_error + string" where
  "js_trim v =
     (case v of
        JStr s \<Rightarrow> Inr (trim s)
      | JUndefined \<Rightarrow> Inl (JsError ''TypeError''
          (''Cannot read properties of undefined (reading '' @ [CHR 0x27] @ ''trim'' @ [CHR 0x27] @ '')''))
      | JNull \<Rightarrow> Inl (JsError ''TypeError''
          (''Cannot read properties of null (reading '' @ [CHR 0x27] @ ''trim'' @ [CHR 0x27] @ '')''))
      | _ \<Rightarrow> Inl (JsError ''TypeError''
          (''(req.body.prompt || '' @ [CHR 0x22, CHR 0x22] @ '').trim is not a function'')))"

text \<open>The decimal rendering of a number inside a template literal.\<close>

definition digit :: "nat \<Rightarrow> char" where
  "digit d = ''0123456789'' ! d"

fun show_nat :: "nat \<Rightarrow> string" where
  "show_nat n = (if n < 10 then [digit n] else show_nat (n div 10) @ [digit (n mod 10)])"

declare show_nat.simps [simp del]

text \<open>
  POSIX \<open>path.basename\<close>: trailing separators are dropped, then the part after the
  last separator is returned.
\<close>

definition basename :: "string \<Rightarrow> string" where
  "basename p =
     rev (takeWhile (\<lambda>c. c \<noteq> CHR ''/'')
            (dropWhile (\<lambda>c. c = CHR ''/'') (rev p)))"

text \<open>
  POSIX \<open>path.extname\<close>: the part of the base name from its last dot on; empty when
  there is no dot, when nothing stands before the last dot, and for \<open>..\<close>.
\<close>

definition extname :: "string \<Rightarrow> string" where
  "extname p =
     (let b = basename p;
          stem = rev (drop 1 (dropWhile (\<lambda>c. c \<noteq> CHR ''.'') (rev b)))
      in if CHR ''.'' \<notin> set b \<or> stem = [] \<or> b = ''..'' then []
         else CHR ''.'' # rev (takeWhile (\<lambda>c. c \<noteq> CHR ''.'') (rev b)))"

text \<open>
  \<open>path.join(dir, name)\<close> for a directory and an entry name: the two are joined by
  one separator. (The normalisation \<open>path.join\<close> also performs rewrites the directory
  part only; it does not change which file is meant.)
\<close>

definition path_join :: "string \<Rightarrow> string \<Rightarrow> string" where
  "path_join dir name = dir @ ''/'' @ name"

section \<open>The storage directory\<close>

text \<open>
  The file system is a map from paths to contents. No claim depends on the bytes of an
  image, so contents are symbolic: the bytes of an upload, the output of the resize of
  some content, the bytes \<open>Buffer.from(s, 'base64')\<close> decodes from a string, and the
  bytes \<open>Buffer.from\<close> makes of the elements of an array.
\<close>

datatype content = Uploaded string | Resized content | Base64 string | Bytes "jsval list"

type_synonym fs = "string \<rightharpoonup> content"

text \<open>\<open>fs.unlinkSync\<close> removes the file; it throws \<open>ENOENT\<close> when the path does
  not exist.\<close>

definition unlinkSync :: "string \<Rightarrow> fs \<Rightarrow> js_error + fs" where
  "unlinkSync p files0 =
     (case files0 p of
        None \<Rightarrow> Inl (JsError ''Error''
                 (''ENOENT: no such file or directory, unlink '' @ [CHR 0x27] @ p @ [CHR 0x27]))
      | Some c \<Rightarrow> Inr (files0(p := None)))"

text \<open>
  \<open>Buffer.from(value, 'base64')\<close>: a string is decoded (leniently, so every string
  yields a buffer) and an array gives the buffer of its elements; \<open>undefined\<close>,
  \<open>null\<close>, a boolean or a number is a \<open>TypeError\<close> (the messages are those of
  \<open>ERR_INVALID_ARG_TYPE\<close>).
\<close>

definition show_int :: "int \<Rightarrow> string" where
  "show_int n = (if n < 0 then ''-'' @ show_nat (nat (- n)) else show_nat (nat n))"

definition received :: "jsval \<Rightarrow> string" where
  "received v =
     (case v of
        JUndefined \<Rightarrow> ''undefined''
      | JNull \<Rightarrow> ''null''
      | JBool b \<Rightarrow> ''type boolean ('' @ (if b then ''true'' else ''false'') @ '')''
      | JNum n \<Rightarrow> ''type number ('' @ show_int n @ '')''
      | JStr s \<Rightarrow> ''type string''
      | JArr xs \<Rightarrow> ''an instance of Array'')"

definition Buffer_from :: "jsval \<Rightarrow> js_error + content" where
  "Buffer_from v =
     (case v of
        JStr s \<Rightarrow> Inr (Base64 s)
      | JArr xs \<Rightarrow> Inr (Bytes xs)
      | JNum n \<Rightarrow> Inl (JsError ''TypeError''
          (''The '' @ [CHR 0x22] @ ''value'' @ [CHR 0x22] @
           '' argument must not be of type number. Received '' @ received v))
      | _ \<Rightarrow> Inl (JsError ''TypeError''
          (''The first argument must be of type string or an instance of Buffer, '' @
           ''ArrayBuffer, or Array or an Array-like Object. Received '' @ received v)))"

text \<open>The error \<open>Buffer.from\<close> throws on \<open>null\<close>.\<close>

definition null_payload_error :: js_error where
  "null_payload_error =
     JsError ''TypeError''
       (''The first argument must be of type string or an instance of Buffer, '' @
        ''ArrayBuffer, or Array or an Array-like Object. Received null'')"

section \<open>The environment of one request\<close>

text \<open>
  Everything outside the repository is a parameter of the model: the configured storage
  directory, the image library, the two remote models, the clock, the identifier
  generator and the disk. A remote call either throws (with the message of the error) or
  returns a response object. The image library and the disk either succeed (\<open>None\<close>)
  or fail with a message; what a failed call leaves on the disk is not modelled, the
  directory is taken as it was before the call.
\<close>

datatype outcome = Throws string | Returns jsobj

record env =
  STORAGE_DIR :: string
  sharp_toFile :: "content \<Rightarrow> string \<Rightarrow> string option"
  generateContent :: "string \<Rightarrow> outcome"
  generateImage :: "string \<Rightarrow> jsval \<Rightarrow> outcome"
  Date_now :: nat
  uuidv4 :: string
  writeFile_error :: "string \<Rightarrow> content \<Rightarrow> string option"

text \<open>
  \<open>sharp(src).resize(...).toFile(dst)\<close>: rejects when the source is missing or the
  library fails on it; otherwise \<open>dst\<close> holds the resized image.
\<close>

definition sharp_resize :: "env \<Rightarrow> string \<Rightarrow> string \<Rightarrow> fs \<Rightarrow> js_error + fs" where
  "sharp_resize e src dst files0 =
     (case files0 src of
        None \<Rightarrow> Inl (JsError ''Error'' (''Input file is missing: '' @ src))
      | Some c \<Rightarrow>
          (case sharp_toFile e c dst of
             Some msg \<Rightarrow> Inl (JsError ''Error'' msg)
           | None \<Rightarrow> Inr (files0(dst \<mapsto> Resized c))))"

definition writeFileSync :: "env \<Rightarrow> string \<Rightarrow> content \<Rightarrow> fs \<Rightarrow> js_error + fs" where
  "writeFileSync e p c files0 =
     (case writeFile_error e p c of
        Some msg \<Rightarrow> Inl (JsError ''Error'' msg)
      | None \<Rightarrow> Inr (files0(p \<mapsto> c)))"

section \<open>The two service clients\<close>

text \<open>\<open>services/geminiText.js\<close>: the response is returned as it is; a failure is
  caught and replaced by an object carrying the prompt.\<close>

definition parsePrompt :: "env \<Rightarrow> string \<Rightarrow> jsobj" where
  "parsePrompt e prompt =
     (case generateContent e prompt of
        Returns resp \<Rightarrow> resp
      | Throws msg \<Rightarrow> [(''text'', JStr prompt), (''error'', JStr msg)])"

text \<open>\<open>services/geminiImage.js\<close>: the same shape, with a null payload on failure.\<close>

definition editImage :: "env \<Rightarrow> string \<Rightarrow> jsval \<Rightarrow> jsobj" where
  "editImage e imagePath instructions =
     (case generateImage e imagePath instructions of
        Returns resp \<Rightarrow> resp
      | Throws msg \<Rightarrow> [(''imageBase64'', JNull), (''error'', JStr msg)])"

section \<open>The upload options\<close>

text \<open>
  The file of a multipart request as the upload middleware describes it to the options
  (\<open>part\<close>), and the same file once it is staged, with its path (\<open>upload\<close>).
\<close>

record part =
  originalname :: string
  mimetype :: string

record upload = part +
  path :: string

text \<open>\<open>/jpeg|jpg|png|webp/.test(s)\<close>: one of the words occurs somewhere in \<open>s\<close>.\<close>

definition starts_with :: "string \<Rightarrow> string \<Rightarrow> bool" where
  "starts_with w s \<longleftrightarrow> take (length w) s = w"

fun contains :: "string \<Rightarrow> string \<Rightarrow> bool" where
  "contains w [] = (w = [])"
| "contains w (c # cs) = (starts_with w (c # cs) \<or> contains w cs)"

definition mime_words :: "string list" where
  "mime_words = [''jpeg'', ''jpg'', ''png'', ''webp'']"

definition mime_regex :: "string \<Rightarrow> bool" where
  "mime_regex s \<longleftrightarrow> list_ex (\<lambda>w. contains w s) mime_words"

text \<open>
  \<open>/\.(jpe?g|png|webp)$/i.test(s)\<close>: \<open>s\<close> ends in a dot and one of the four
  extensions, letters compared without case (only ASCII letters fold).
\<close>

definition to_lower :: "char \<Rightarrow> char" where
  "to_lower c =
     (if 65 \<le> (of_char c :: nat) \<and> (of_char c :: nat) \<le> 90
      then char_of ((of_char c :: nat) + 32) else c)"

definition ends_with_ci :: "string \<Rightarrow> string \<Rightarrow> bool" where
  "ends_with_ci w s \<longleftrightarrow>
     length w \<le> length s \<and> map to_lower (drop (length s - length w) s) = w"

definition name_suffixes :: "string list" where
  "name_suffixes = [''.jpg'', ''.jpeg'', ''.png'', ''.webp'']"

definition name_regex :: "string \<Rightarrow> bool" where
  "name_regex s \<longleftrightarrow> list_ex (\<lambda>w. ends_with_ci w s) name_suffixes"

text \<open>
  \<open>fileFilter\<close> hands the callback an error (or null) and the accept flag; the pair
  is the result here.
\<close>

definition fileFilter :: "'a part_scheme \<Rightarrow> js_error option \<times> bool" where
  "fileFilter f =
     (let allowed = (mime_regex (mimetype f) \<or> name_regex (originalname f))
      in (if allowed then None else Some (JsError ''Error'' ''Only images are allowed (jpg/png/webp).''),
          allowed))"

text \<open>
  The two options of the disk storage take a callback. What an option does with it is its
  result here: it calls it, with an error or null and a value, or it never calls it.
  \<open>destination\<close> calls it with the storage directory. \<open>filename\<close> is an arrow
  function whose body is the template string: it returns the name and does not call the
  callback; the first component is the value it returns, the second what it does with
  the callback.
\<close>

datatype 'a callback = Called "js_error option" 'a | NeverCalled

definition destination :: "env \<Rightarrow> 'a part_scheme \<Rightarrow> string callback" where
  "destination e f = Called None (STORAGE_DIR e)"

definition filename :: "env \<Rightarrow> 'a part_scheme \<Rightarrow> string \<times> string callback" where
  "filename e f =
     (show_nat (Date_now e) @ ''-'' @ uuidv4 e @ extname (originalname f), NeverCalled)"

section \<open>Responses and the health route\<close>

record response =
  status :: nat
  body :: jsobj

definition health :: "nat \<Rightarrow> response" where
  "health now = \<lparr>status = 200, body = [(''status'', JStr ''ok''), (''ts'', JNum (int now))]\<rparr>"

text \<open>
  The rate limiter is installed before every route. Whether it lets a request through is
  a parameter; when it does not, the limiter answers and the route's handler never runs.
\<close>

datatype routed = Handled response | RateLimited

definition get_health :: "bool \<Rightarrow> nat \<Rightarrow> routed" where
  "get_health admitted now = (if admitted then Handled (health now) else RateLimited)"

section \<open>Calls and their completion\<close>

text \<open>
  One event per effect of the handler: the deletion of the staged upload, the preview
  generation, the two remote calls, the output write and the response.
\<close>

datatype event =
    EvUnlink string
  | EvPreview string string
  | EvTextCall string
  | EvEditCall string jsval
  | EvWrite string content
  | EvRespond response

text \<open>
  The world a handler runs in is the storage directory and a log. An operation is a call
  the handler can make: its event, and what its completion does to the directory and
  returns. Starting an operation logs that it has begun and gives a promise; awaiting the
  promise lets the operation complete and logs that it has ended. The log is written
  here and nowhere else. \<open>call\<close> is \<open>await f(x)\<close>, and equally a synchronous call
  \<open>f(x)\<close>: the operation is started and the handler goes on only when it has ended.
\<close>

datatype phase = Begin | End

record world =
  disk :: fs
  log :: "(phase \<times> event) list"

datatype 'a operation = Operation (label: event) (complete: "fs \<Rightarrow> 'a \<times> fs")

datatype 'a promise = Promise "'a operation"

definition start :: "'a operation \<Rightarrow> world \<Rightarrow> 'a promise \<times> world" where
  "start op w = (Promise op, w\<lparr>log := log w @ [(Begin, label op)]\<rparr>)"

definition await :: "'a promise \<Rightarrow> world \<Rightarrow> 'a \<times> world" where
  "await p w =
     (case p of
        Promise op \<Rightarrow>
          (case complete op (disk w) of
             (v, d) \<Rightarrow> (v, \<lparr>disk = d, log = log w @ [(End, label op)]\<rparr>)))"

definition call :: "'a operation \<Rightarrow> world \<Rightarrow> 'a \<times> world" where
  "call op w = (case start op w of (p, w1) \<Rightarrow> await p w1)"

text \<open>An operation on the directory that may throw leaves it unchanged when it does.\<close>

definition effect :: "(fs \<Rightarrow> js_error + fs) \<Rightarrow> fs \<Rightarrow> (js_error + unit) \<times> fs" where
  "effect f d = (case f d of Inl err \<Rightarrow> (Inl err, d) | Inr d' \<Rightarrow> (Inr (), d'))"

definition unlink_op :: "string \<Rightarrow> (js_error + unit) operation" where
  "unlink_op p = Operation (EvUnlink p) (effect (unlinkSync p))"

definition toFile_op :: "env \<Rightarrow> string \<Rightarrow> string \<Rightarrow> (js_error + unit) operation" where
  "toFile_op e src dst = Operation (EvPreview src dst) (effect (sharp_resize e src dst))"

definition parsePrompt_op :: "env \<Rightarrow> string \<Rightarrow> jsobj operation" where
  "parsePrompt_op e prompt = Operation (EvTextCall prompt) (\<lambda>d. (parsePrompt e prompt, d))"

definition editImage_op :: "env \<Rightarrow> string \<Rightarrow> jsval \<Rightarrow> jsobj operation" where
  "editImage_op e imagePath instructions =
     Operation (EvEditCall imagePath instructions)
       (\<lambda>d. (editImage e imagePath instructions, d))"

definition writeFile_op :: "env \<Rightarrow> string \<Rightarrow> content \<Rightarrow> (js_error + unit) operation" where
  "writeFile_op e p c = Operation (EvWrite p c) (effect (writeFileSync e p c))"

definition json_op :: "response \<Rightarrow> response operation" where
  "json_op r = Operation (EvRespond r) (\<lambda>d. (r, d))"

section \<open>The processing route\<close>

text \<open>
  What reaches the handler is \<open>req.file\<close>, absent or the upload that the middleware
  staged, and \<open>req.body.prompt\<close>: \<open>undefined\<close> when the field is absent, a string
  for a text field, an array when the field is repeated, and any JSON value when the body
  was JSON.
\<close>

record request =
  req_file :: "upload option"
  body_prompt :: jsval

text \<open>
  The result of a run: the response sent, the storage directory and the log at the end.
  The trace of a run is the sequence of the events that were begun.
\<close>

record result =
  response :: response
  files :: fs
  timeline :: "(phase \<times> event) list"

definition trace :: "result \<Rightarrow> event list" where
  "trace r = map snd (filter (\<lambda>t. fst t = Begin) (timeline r))"

text \<open>\<open>res.status(s).json(b)\<close> ends the run.\<close>

definition respond :: "response \<Rightarrow> world \<Rightarrow> result" where
  "respond r w =
     (case call (json_op r) w of
        (sent, w1) \<Rightarrow> \<lparr>response = sent, files = disk w1, timeline = log w1\<rparr>)"

definition bad_request :: response where
  "bad_request = \<lparr>status = 400, body = [(''error'', JStr ''Prompt and image are required.'')]\<rparr>"

text \<open>The \<open>catch\<close> block: \<open>err.message || String(err)\<close>.\<close>

definition server_error :: "js_error \<Rightarrow> response" where
  "server_error err =
     \<lparr>status = 500,
      body = [(''error'', JStr ''Server error''),
              (''message'', JStr (if err_message err \<noteq> [] then err_message err
                                  else error_to_string err))]\<rparr>"

text \<open>The names the handler computes: \<open>previewPath\<close>, \<open>outFilename\<close>, \<open>outPath\<close>.\<close>

definition previewPath :: "env \<Rightarrow> upload \<Rightarrow> string" where
  "previewPath e f = path_join (STORAGE_DIR e) (''preview-'' @ basename (path f) @ ''.webp'')"

definition outFilename :: "env \<Rightarrow> string" where
  "outFilename e = ''out-'' @ show_nat (Date_now e) @ ''-'' @ uuidv4 e @ ''.png''"

definition outPath :: "env \<Rightarrow> string" where
  "outPath e = path_join (STORAGE_DIR e) (outFilename e)"

text \<open>The part of the handler after validation: preview, the two calls, persist, respond.\<close>

definition pipeline :: "env \<Rightarrow> upload \<Rightarrow> string \<Rightarrow> world \<Rightarrow> result" where
  "pipeline e f prompt w0 =
     (case call (toFile_op e (path f) (previewPath e f)) w0 of
        (Inl err, w1) \<Rightarrow> respond (server_error err) w1
      | (Inr ok, w1) \<Rightarrow>
          (case call (parsePrompt_op e prompt) w1 of
             (parsed, w2) \<Rightarrow>
               (case call (editImage_op e (path f) (get_prop parsed ''text'')) w2 of
                  (out, w3) \<Rightarrow>
                    (case Buffer_from (get_prop out ''imageBase64'') of
                       Inl err \<Rightarrow> respond (server_error err) w3
                     | Inr buffer \<Rightarrow>
                         (case call (writeFile_op e (outPath e) buffer) w3 of
                            (Inl err, w4) \<Rightarrow> respond (server_error err) w4
                          | (Inr written, w4) \<Rightarrow>
                              respond
                                \<lparr>status = 200,
                                 body = [(''success'', JBool True),
                                         (''parsed'', get_prop parsed ''text''),
                                         (''imageUrl'', JStr (''/storage/'' @ outFilename e)),
                                         (''previewUrl'',
                                            JStr (''/storage/'' @ basename (previewPath e f)))]\<rparr>
                                w4)))))"

text \<open>A run starts on the storage directory as it is, with an empty log.\<close>

definition init :: "fs \<Rightarrow> world" where
  "init fs0 = \<lparr>disk = fs0, log = []\<rparr>"

text \<open>\<open>(req.body.prompt || '').trim()\<close>\<close>

definition trimmed_prompt :: "request \<Rightarrow> js_error + string" where
  "trimmed_prompt req = js_trim (js_or (body_prompt req) (JStr []))"

text \<open>
  The handler of \<open>POST /process\<close>, with its \<open>try\<close>/\<open>catch\<close>, run on the storage
  directory \<open>fs0\<close>.
\<close>

definition process :: "env \<Rightarrow> request \<Rightarrow> fs \<Rightarrow> result" where
  "process e req fs0 =
     (let w0 = init fs0
      in case trimmed_prompt req of
           Inl err \<Rightarrow> respond (server_error err) w0
         | Inr prompt \<Rightarrow>
             if prompt = [] \<or> req_file req = None then
               (case req_file req of
                  None \<Rightarrow> respond bad_request w0
                | Some f \<Rightarrow>
                    (case call (unlink_op (path f)) w0 of
                       (Inl err, w1) \<Rightarrow> respond (server_error err) w1
                     | (Inr ok, w1) \<Rightarrow> respond bad_request w1))
             else pipeline e (the (req_file req)) prompt w0)"

section \<open>The upload middleware in front of the handler\<close>

text \<open>
  \<open>upload.single('image')\<close> runs before the handler. The library is not part of the
  repository; what is modelled is its contract with the options the repository gives it.
  For a request without a file in the field \<open>image\<close> it passes the request on with
  \<open>req.file\<close> unset. For a file it asks \<open>fileFilter\<close>: an error ends the request in
  the error handler of the framework, a refusal without error skips the file. An accepted
  file goes to the disk storage, which asks \<open>destination\<close> and then \<open>filename\<close> and
  continues from the callback of each: it writes the file under the name it is given and
  only then passes the request on. While an option has not called its callback the upload
  stays pending, and so does the request.
\<close>

record incoming =
  image_part :: "(part \<times> string) option"
  prompt_field :: jsval

datatype staging = Staged upload fs | StorageError js_error | Pending

definition handleFile :: "env \<Rightarrow> part \<Rightarrow> string \<Rightarrow> fs \<Rightarrow> staging" where
  "handleFile e f bytes fs0 =
     (case destination e f of
        NeverCalled \<Rightarrow> Pending
      | Called (Some err) dir \<Rightarrow> StorageError err
      | Called None dir \<Rightarrow>
          (case snd (filename e f) of
             NeverCalled \<Rightarrow> Pending
           | Called (Some err) name \<Rightarrow> StorageError err
           | Called None name \<Rightarrow>
               Staged \<lparr>originalname = originalname f, mimetype = mimetype f,
                       path = path_join dir name\<rparr>
                 (fs0(path_join dir name \<mapsto> Uploaded bytes))))"

datatype middleware = Next request fs | NextError js_error | Hangs

definition upload_single :: "env \<Rightarrow> incoming \<Rightarrow> fs \<Rightarrow> middleware" where
  "upload_single e rq fs0 =
     (case image_part rq of
        None \<Rightarrow> Next \<lparr>req_file = None, body_prompt = prompt_field rq\<rparr> fs0
      | Some (f, bytes) \<Rightarrow>
          (case fileFilter f of
             (Some err, accepted) \<Rightarrow> NextError err
           | (None, False) \<Rightarrow> Next \<lparr>req_file = None, body_prompt = prompt_field rq\<rparr> fs0
           | (None, True) \<Rightarrow>
               (case handleFile e f bytes fs0 of
                  Staged u fs1 \<Rightarrow> Next \<lparr>req_file = Some u, body_prompt = prompt_field rq\<rparr> fs1
                | StorageError err \<Rightarrow> NextError err
                | Pending \<Rightarrow> Hangs)))"

text \<open>The route, for a request the rate limiter has let through: the middleware, then
  the handler. A request either gets the handler's answer, ends in the framework's error
  handler, or gets no answer.\<close>

datatype answer = Answered result | ErrorHandler js_error | NoAnswer

definition post_process :: "env \<Rightarrow> incoming \<Rightarrow> fs \<Rightarrow> answer" where
  "post_process e rq fs0 =
     (case upload_single e rq fs0 of
        Next req fs1 \<Rightarrow> Answered (process e req fs1)
      | NextError err \<Rightarrow> ErrorHandler err
      | Hangs \<Rightarrow> NoAnswer)"

section \<open>Sequential runs\<close>

text \<open>
  The log of calls made one after the other, each ended before the next begins, and the
  result of a run that made such calls and then sent its response.
\<close>

definition spans :: "event list \<Rightarrow> (phase \<times> event) list" where
  "spans evs = concat (map (\<lambda>ev. [(Begin, ev), (End, ev)]) evs)"

definition finish :: "response \<Rightarrow> fs \<Rightarrow> event list \<Rightarrow> result" where
  "finish r fs1 evs = \<lparr>response = r, files = fs1, timeline = spans (evs @ [EvRespond r])\<rparr>"

section \<open>The order of the steps\<close>

text \<open>
  The steps of the pipeline, numbered as the specification lists them: the deletion that
  belongs to validation is step 0, preview generation 1, text interpretation 2, image
  edit 3, persisting the output 4 and the response 5.
\<close>

fun step_of :: "event \<Rightarrow> nat" where
  "step_of (EvUnlink p) = 0"
| "step_of (EvPreview src dst) = 1"
| "step_of (EvTextCall p) = 2"
| "step_of (EvEditCall p i) = 3"
| "step_of (EvWrite p c) = 4"
| "step_of (EvRespond r) = 5"

section \<open>The upload filter, as the specification words it\<close>

text \<open>
  The specification restricts "MIME/extension" to the set \<open>{jpg, jpeg, png, webp}\<close>.
  Read on the data: the subtype of the MIME type (the part after the slash) and the
  extension of the file name (the part after the last dot, without case) are compared
  with the four names. These definitions follow the specification, not the code.
\<close>

definition image_formats :: "string list" where
  "image_formats = [''jpg'', ''jpeg'', ''png'', ''webp'']"

definition mime_subtype :: "string \<Rightarrow> string" where
  "mime_subtype m = drop 1 (dropWhile (\<lambda>c. c \<noteq> CHR ''/'') m)"

definition extension :: "string \<Rightarrow> string" where
  "extension n =
     (if CHR ''.'' \<in> set n
      then map to_lower (rev (takeWhile (\<lambda>c. c \<noteq> CHR ''.'') (rev n)))
      else [])"

definition outside_formats :: "upload \<Rightarrow> bool" where
  "outside_formats f \<longleftrightarrow>
     mime_subtype (mimetype f) \<notin> set image_formats
     \<and> extension (originalname f) \<notin> set image_formats"

text \<open>The number a health response carries in \<open>ts\<close>.\<close>

definition ts_of :: "response \<Rightarrow> int" where
  "ts_of r = (case get_prop (body r) ''ts'' of JNum n \<Rightarrow> n | _ \<Rightarrow> 0)"

section \<open>Example requests\<close>

text \<open>
  A multipart request with an image and a prompt; the handler's request for the same
  upload as it would be once staged; requests without a file; and environments in which
  everything succeeds, the image model is down, the text model is down, and the text
  model answers without a \<open>text\<close> property.
\<close>

definition example_env :: env where
  "example_env =
     \<lparr>STORAGE_DIR = ''storage'',
      sharp_toFile = (\<lambda>c dst. None),
      generateContent = (\<lambda>p. Returns [(''text'', JStr (''Recolour: '' @ p))]),
      generateImage = (\<lambda>p i. Returns [(''imageBase64'', JStr ''aGVsbG8='')]),
      Date_now = 1700000000123,
      uuidv4 = ''3f2a'',
      writeFile_error = (\<lambda>p c. None)\<rparr>"

definition example_part :: part where
  "example_part = \<lparr>originalname = ''cat.png'', mimetype = ''image/png''\<rparr>"

definition example_incoming :: incoming where
  "example_incoming =
     \<lparr>image_part = Some (example_part, ''PNG''), prompt_field = JStr ''make it blue''\<rparr>"

definition example_upload :: upload where
  "example_upload =
     \<lparr>originalname = ''cat.png'', mimetype = ''image/png'', path = ''storage/17-ab.png''\<rparr>"

definition example_request :: request where
  "example_request =
     \<lparr>req_file = Some example_upload, body_prompt = JStr ''  make it blue ''\<rparr>"

definition fileless_request :: request where
  "fileless_request = \<lparr>req_file = None, body_prompt = JStr ''make it blue''\<rparr>"

definition fileless_incoming :: incoming where
  "fileless_incoming = \<lparr>image_part = None, prompt_field = JNum 5\<rparr>"

definition number_prompt_request :: request where
  "number_prompt_request = \<lparr>req_file = None, body_prompt = JNum 5\<rparr>"

definition repeated_prompt_request :: request where
  "repeated_prompt_request =
     \<lparr>req_file = None, body_prompt = JArr [JStr ''make it blue'', JStr ''make it red'']\<rparr>"

definition webpack_upload :: upload where
  "webpack_upload =
     \<lparr>originalname = ''bundle.js'', mimetype = ''application/x-webpack'',
      path = ''storage/18-cd.js''\<rparr>"

definition example_fs :: fs where
  "example_fs = [''storage/17-ab.png'' \<mapsto> Uploaded ''PNG'']"

definition image_down_env :: env where
  "image_down_env =
     example_env\<lparr>generateImage := (\<lambda>p i. Throws ''429 Too Many Requests'')\<rparr>"

definition text_down_env :: env where
  "text_down_env =
     example_env\<lparr>generateContent := (\<lambda>p. Throws ''503 Service Unavailable'')\<rparr>"

definition no_text_env :: env where
  "no_text_env =
     example_env\<lparr>generateContent := (\<lambda>p. Returns [(''candidates'', JNull)])\<rparr>"

section \<open>Basic facts\<close>

lemma get_prop_Nil: "get_prop [] k = JUndefined"
  by (simp add: get_prop_def)

lemma get_prop_Cons: "get_prop ((k', v) # obj) k = (if k = k' then v else get_prop obj k)"
  by (simp add: get_prop_def)

lemma json_props_success:
  "''parsed'' \<notin> fst ` set (json_props [(''success'', JBool True), (''parsed'', JUndefined),
                                          (''imageUrl'', a), (''previewUrl'', b)])"
  by (auto simp: json_props_def)

lemma sharp_resize_ok:
  "fs0 src = Some c \<Longrightarrow> sharp_toFile e c dst = None \<Longrightarrow>
   sharp_resize e src dst fs0 = Inr (fs0(dst \<mapsto> Resized c))"
  by (simp add: sharp_resize_def)

lemma writeFileSync_Inr:
  "writeFileSync e p c fs1 = Inr fs2 \<Longrightarrow> writeFile_error e p c = None \<and> fs2 p = Some c"
  by (auto simp: writeFileSync_def split: option.splits)

lemma writeFileSync_Inl:
  "writeFileSync e p c fs1 = Inl err \<Longrightarrow>
   \<exists>msg. writeFile_error e p c = Some msg \<and> err = JsError ''Error'' msg"
  by (auto simp: writeFileSync_def split: option.splits)

lemma Buffer_from_null: "Buffer_from JNull = Inl null_payload_error"
  by (simp add: Buffer_from_def received_def null_payload_error_def)

lemma Buffer_from_fallback:
  "generateImage e p i = Throws msg \<Longrightarrow>
   Buffer_from (get_prop (editImage e p i) ''imageBase64'') = Inl null_payload_error"
  by (simp add: editImage_def get_prop_def Buffer_from_null)

lemma trimmed_prompt_text:
  "body_prompt req = JStr s \<Longrightarrow> trimmed_prompt req = Inr (trim s)"
  by (simp add: trimmed_prompt_def js_or_def truthy_def js_trim_def trim_def)

lemma trimmed_prompt_falsy:
  "\<not> truthy (body_prompt req) \<Longrightarrow> trimmed_prompt req = Inr []"
  by (simp add: trimmed_prompt_def js_or_def js_trim_def trim_def)

lemma trimmed_prompt_throws:
  "truthy (body_prompt req) \<Longrightarrow> \<forall>s. body_prompt req \<noteq> JStr s \<Longrightarrow>
   trimmed_prompt req =
     Inl (JsError ''TypeError''
       (''(req.body.prompt || '' @ [CHR 0x22, CHR 0x22] @ '').trim is not a function''))"
  by (cases "body_prompt req") (simp_all add: trimmed_prompt_def js_or_def js_trim_def truthy_def)

subsection \<open>Sequential logs\<close>

lemma spans_Nil: "spans [] = []"
  by (simp add: spans_def)

lemma spans_Cons: "spans (ev # evs) = (Begin, ev) # (End, ev) # spans evs"
  by (simp add: spans_def)

lemma spans_append: "spans (xs @ ys) = spans xs @ spans ys"
  by (simp add: spans_def)

lemma begun_spans: "map snd (filter (\<lambda>t. fst t = Begin) (spans evs)) = evs"
  by (induction evs) (simp_all add: spans_Nil spans_Cons)

lemma finish_sel:
  "response (finish r fs1 evs) = r"
  "files (finish r fs1 evs) = fs1"
  "trace (finish r fs1 evs) = evs @ [EvRespond r]"
  "timeline (finish r fs1 evs) = spans (evs @ [EvRespond r])"
  by (simp_all add: finish_def trace_def begun_spans)

lemma call_Operation:
  "call (Operation ev c) w =
     (fst (c (disk w)), \<lparr>disk = snd (c (disk w)), log = log w @ spans [ev]\<rparr>)"
  by (simp add: call_def start_def await_def spans_def split: prod.splits)

lemma respond_eq:
  "respond r w = \<lparr>response = r, files = disk w, timeline = log w @ spans [EvRespond r]\<rparr>"
  by (simp add: respond_def json_op_def call_Operation)

lemma respond_spans:
  "respond r \<lparr>disk = d, log = spans evs\<rparr> = finish r d evs"
  by (simp add: respond_eq finish_def spans_append)

lemma call_effect_Inl:
  "f d = Inl err \<Longrightarrow>
   call (Operation ev (effect f)) \<lparr>disk = d, log = spans evs\<rparr> =
     (Inl err, \<lparr>disk = d, log = spans (evs @ [ev])\<rparr>)"
  by (simp add: call_Operation effect_def spans_append)

lemma call_effect_Inr:
  "f d = Inr d' \<Longrightarrow>
   call (Operation ev (effect f)) \<lparr>disk = d, log = spans evs\<rparr> =
     (Inr (), \<lparr>disk = d', log = spans (evs @ [ev])\<rparr>)"
  by (simp add: call_Operation effect_def spans_append)

lemma call_value:
  "call (Operation ev (\<lambda>d. (v, d))) \<lparr>disk = d, log = spans evs\<rparr> =
     (v, \<lparr>disk = d, log = spans (evs @ [ev])\<rparr>)"
  by (simp add: call_Operation spans_append)

lemma init_spans: "init fs0 = \<lparr>disk = fs0, log = spans []\<rparr>"
  by (simp add: init_def spans_Nil)

lemma unlink_branch:
  "call (unlink_op p) (init fs0) =
     (case unlinkSync p fs0 of
        Inl err \<Rightarrow> (Inl err, \<lparr>disk = fs0, log = spans [EvUnlink p]\<rparr>)
      | Inr fs1 \<Rightarrow> (Inr (), \<lparr>disk = fs1, log = spans [EvUnlink p]\<rparr>))"
  by (simp add: unlink_op_def init_def call_Operation effect_def split: sum.splits)

subsection \<open>The branches of the handler\<close>

lemma process_valid:
  "req_file req = Some f \<Longrightarrow> trimmed_prompt req = Inr p \<Longrightarrow> p \<noteq> [] \<Longrightarrow>
   process e req fs0 = pipeline e f p (init fs0)"
  by (simp add: process_def)

lemma pipeline_preview_fails:
  "sharp_resize e (path f) (previewPath e f) fs0 = Inl err \<Longrightarrow>
   pipeline e f p (init fs0) =
     finish (server_error err) fs0 [EvPreview (path f) (previewPath e f)]"
  by (simp add: pipeline_def init_spans toFile_op_def call_effect_Inl respond_spans)

lemma pipeline_decode_fails:
  "sharp_resize e (path f) (previewPath e f) fs0 = Inr fs1 \<Longrightarrow>
   Buffer_from (get_prop (editImage e (path f) (get_prop (parsePrompt e p) ''text'')) ''imageBase64'') = Inl err \<Longrightarrow>
   pipeline e f p (init fs0) = finish (server_error err) fs1
     [EvPreview (path f) (previewPath e f), EvTextCall p,
      EvEditCall (path f) (get_prop (parsePrompt e p) ''text'')]"
  by (simp add: pipeline_def init_spans toFile_op_def parsePrompt_op_def editImage_op_def
      call_effect_Inr call_value respond_spans)

lemma pipeline_write_fails:
  "sharp_resize e (path f) (previewPath e f) fs0 = Inr fs1 \<Longrightarrow>
   Buffer_from (get_prop (editImage e (path f) (get_prop (parsePrompt e p) ''text'')) ''imageBase64'') = Inr buffer \<Longrightarrow>
   writeFileSync e (outPath e) buffer fs1 = Inl err \<Longrightarrow>
   pipeline e f p (init fs0) = finish (server_error err) fs1
     [EvPreview (path f) (previewPath e f), EvTextCall p,
      EvEditCall (path f) (get_prop (parsePrompt e p) ''text''),
      EvWrite (outPath e) buffer]"
  by (simp add: pipeline_def init_spans toFile_op_def parsePrompt_op_def editImage_op_def
      writeFile_op_def call_effect_Inr call_effect_Inl call_value respond_spans)

lemma pipeline_succeeds:
  "sharp_resize e (path f) (previewPath e f) fs0 = Inr fs1 \<Longrightarrow>
   Buffer_from (get_prop (editImage e (path f) (get_prop (parsePrompt e p) ''text'')) ''imageBase64'') = Inr buffer \<Longrightarrow>
   writeFileSync e (outPath e) buffer fs1 = Inr fs2 \<Longrightarrow>
   pipeline e f p (init fs0) =
     finish \<lparr>status = 200,
             body = [(''success'', JBool True),
                     (''parsed'', get_prop (parsePrompt e p) ''text''),
                     (''imageUrl'', JStr (''/storage/'' @ outFilename e)),
                     (''previewUrl'', JStr (''/storage/'' @ basename (previewPath e f)))]\<rparr>
       fs2
       [EvPreview (path f) (previewPath e f), EvTextCall p,
        EvEditCall (path f) (get_prop (parsePrompt e p) ''text''),
        EvWrite (outPath e) buffer]"
  by (simp add: pipeline_def init_spans toFile_op_def parsePrompt_op_def editImage_op_def
      writeFile_op_def call_effect_Inr call_value respond_spans)

lemma pipeline_after_preview [consumes 1, case_names decode_failed write_failed succeeded]:
  assumes s: "sharp_resize e (path f) (previewPath e f) fs0 = Inr fs1"
  obtains
    err where
    "Buffer_from (get_prop (editImage e (path f)
        (get_prop (parsePrompt e p) ''text'')) ''imageBase64'') = Inl err"
    "pipeline e f p (init fs0) = finish (server_error err) fs1
       [EvPreview (path f) (previewPath e f), EvTextCall p,
        EvEditCall (path f) (get_prop (parsePrompt e p) ''text'')]"
  | buffer err where
    "Buffer_from (get_prop (editImage e (path f)
        (get_prop (parsePrompt e p) ''text'')) ''imageBase64'') = Inr buffer"
    "writeFileSync e (outPath e) buffer fs1 = Inl err"
    "pipeline e f p (init fs0) = finish (server_error err) fs1
       [EvPreview (path f) (previewPath e f), EvTextCall p,
        EvEditCall (path f) (get_prop (parsePrompt e p) ''text''),
        EvWrite (outPath e) buffer]"
  | buffer fs2 where
    "Buffer_from (get_prop (editImage e (path f)
        (get_prop (parsePrompt e p) ''text'')) ''imageBase64'') = Inr buffer"
    "writeFileSync e (outPath e) buffer fs1 = Inr fs2"
    "pipeline e f p (init fs0) =
       finish \<lparr>status = 200,
               body = [(''success'', JBool True),
                       (''parsed'', get_prop (parsePrompt e p) ''text''),
                       (''imageUrl'', JStr (''/storage/'' @ outFilename e)),
                       (''previewUrl'', JStr (''/storage/'' @ basename (previewPath e f)))]\<rparr>
         fs2
         [EvPreview (path f) (previewPath e f), EvTextCall p,
          EvEditCall (path f) (get_prop (parsePrompt e p) ''text''),
          EvWrite (outPath e) buffer]"
proof (cases "Buffer_from (get_prop (editImage e (path f)
            (get_prop (parsePrompt e p) ''text'')) ''imageBase64'')")
  case (Inl err)
  from Inl pipeline_decode_fails [OF s Inl] show ?thesis by (rule that(1))
next
  case b: (Inr buffer)
  show ?thesis
  proof (cases "writeFileSync e (outPath e) buffer fs1")
    case (Inl err)
    from b Inl pipeline_write_fails [OF s b Inl] show ?thesis by (rule that(2))
  next
    case (Inr fs2)
    from b Inr pipeline_succeeds [OF s b Inr] show ?thesis by (rule that(3))
  qed
qed

text \<open>Every run of the handler is one of eight: the prompt cannot be trimmed, two
  rejections, and five ways through the rest of the \<open>try\<close> block (the deletion, the
  preview, the decoding or the write throws, or nothing does).\<close>

lemma process_cases [case_names type_error no_file blank_prompt unlink_failed preview_failed
    decode_failed write_failed succeeded]:
  obtains
    err where
    "trimmed_prompt req = Inl err"
    "process e req fs0 = finish (server_error err) fs0 []"
  | p where
    "trimmed_prompt req = Inr p" "req_file req = None"
    "process e req fs0 = finish bad_request fs0 []"
  | f :: upload and fs1 where
    "trimmed_prompt req = Inr []" "req_file req = Some f"
    "unlinkSync (path f) fs0 = Inr fs1"
    "process e req fs0 = finish bad_request fs1 [EvUnlink (path f)]"
  | f :: upload and err where
    "trimmed_prompt req = Inr []" "req_file req = Some f"
    "unlinkSync (path f) fs0 = Inl err"
    "process e req fs0 = finish (server_error err) fs0 [EvUnlink (path f)]"
  | f p err where
    "trimmed_prompt req = Inr p" "p \<noteq> []" "req_file req = Some f"
    "sharp_resize e (path f) (previewPath e f) fs0 = Inl err"
    "process e req fs0 =
       finish (server_error err) fs0 [EvPreview (path f) (previewPath e f)]"
  | f p fs1 err where
    "trimmed_prompt req = Inr p" "p \<noteq> []" "req_file req = Some f"
    "sharp_resize e (path f) (previewPath e f) fs0 = Inr fs1"
    "Buffer_from (get_prop (editImage e (path f)
        (get_prop (parsePrompt e p) ''text'')) ''imageBase64'') = Inl err"
    "process e req fs0 = finish (server_error err) fs1
       [EvPreview (path f) (previewPath e f), EvTextCall p,
        EvEditCall (path f) (get_prop (parsePrompt e p) ''text'')]"
  | f p fs1 buffer err where
    "trimmed_prompt req = Inr p" "p \<noteq> []" "req_file req = Some f"
    "sharp_resize e (path f) (previewPath e f) fs0 = Inr fs1"
    "Buffer_from (get_prop (editImage e (path f)
        (get_prop (parsePrompt e p) ''text'')) ''imageBase64'') = Inr buffer"
    "writeFileSync e (outPath e) buffer fs1 = Inl err"
    "process e req fs0 = finish (server_error err) fs1
       [EvPreview (path f) (previewPath e f), EvTextCall p,
        EvEditCall (path f) (get_prop (parsePrompt e p) ''text''),
        EvWrite (outPath e) buffer]"
  | f p fs1 buffer fs2 where
    "trimmed_prompt req = Inr p" "p \<noteq> []" "req_file req = Some f"
    "sharp_resize e (path f) (previewPath e f) fs0 = Inr fs1"
    "Buffer_from (get_prop (editImage e (path f)
        (get_prop (parsePrompt e p) ''text'')) ''imageBase64'') = Inr buffer"
    "writeFileSync e (outPath e) buffer fs1 = Inr fs2"
    "process e req fs0 =
       finish \<lparr>status = 200,
               body = [(''success'', JBool True),
                       (''parsed'', get_prop (parsePrompt e p) ''text''),
                       (''imageUrl'', JStr (''/storage/'' @ outFilename e)),
                       (''previewUrl'', JStr (''/storage/'' @ basename (previewPath e f)))]\<rparr>
         fs2
         [EvPreview (path f) (previewPath e f), EvTextCall p,
          EvEditCall (path f) (get_prop (parsePrompt e p) ''text''),
          EvWrite (outPath e) buffer]"
proof (cases "trimmed_prompt req")
  case (Inl err)
  then have "process e req fs0 = finish (server_error err) fs0 []"
    by (simp add: process_def init_spans respond_spans)
  with Inl show ?thesis by (rule that(1))
next
  case p: (Inr p)
  show ?thesis
  proof (cases "req_file req")
    case None
    then have "process e req fs0 = finish bad_request fs0 []"
      using p by (simp add: process_def init_spans respond_spans)
    with p None show ?thesis by (rule that(2))
  next
    case (Some f)
    show ?thesis
    proof (cases "p = []")
      case True
      show ?thesis
      proof (cases "unlinkSync (path f) fs0")
        case (Inl err)
        then have "process e req fs0 = finish (server_error err) fs0 [EvUnlink (path f)]"
          using Some True p by (simp add: process_def unlink_branch respond_spans)
        with p [unfolded True] Some Inl show ?thesis by (rule that(4))
      next
        case (Inr fs1)
        then have "process e req fs0 = finish bad_request fs1 [EvUnlink (path f)]"
          using Some True p by (simp add: process_def unlink_branch respond_spans)
        with p [unfolded True] Some Inr show ?thesis by (rule that(3))
      qed
    next
      case False
      note v = process_valid [OF Some p False]
      show ?thesis
      proof (cases "sharp_resize e (path f) (previewPath e f) fs0")
        case (Inl err)
        from p False Some Inl show ?thesis
          using pipeline_preview_fails [OF Inl, of p, folded v] by (rule that(5))
      next
        case s: (Inr fs1)
        show ?thesis
        proof (cases "Buffer_from (get_prop (editImage e (path f)
            (get_prop (parsePrompt e p) ''text'')) ''imageBase64'')")
          case (Inl err)
          from p False Some s Inl show ?thesis
            using pipeline_decode_fails [OF s Inl, folded v] by (rule that(6))
        next
          case b: (Inr buffer)
          show ?thesis
          proof (cases "writeFileSync e (outPath e) buffer fs1")
            case (Inl err)
            from p False Some s b Inl show ?thesis
              using pipeline_write_fails [OF s b Inl, folded v] by (rule that(7))
          next
            case (Inr fs2)
            from p False Some s b Inr show ?thesis
              using pipeline_succeeds [OF s b Inr, folded v] by (rule that(8))
          qed
        qed
      qed
    qed
  qed
qed

text \<open>Nothing but \<open>parsePrompt\<close> reads the text model.\<close>

lemma generateContent_update_ignored:
  "previewPath (e\<lparr>generateContent := g\<rparr>) f = previewPath e f"
  "outFilename (e\<lparr>generateContent := g\<rparr>) = outFilename e"
  "outPath (e\<lparr>generateContent := g\<rparr>) = outPath e"
  "toFile_op (e\<lparr>generateContent := g\<rparr>) src dst = toFile_op e src dst"
  "editImage_op (e\<lparr>generateContent := g\<rparr>) p i = editImage_op e p i"
  "writeFile_op (e\<lparr>generateContent := g\<rparr>) q c = writeFile_op e q c"
  by (simp_all add: previewPath_def outFilename_def outPath_def toFile_op_def
      editImage_op_def writeFile_op_def sharp_resize_def editImage_def writeFileSync_def
      fun_eq_iff effect_def split: option.splits)

lemma pipeline_generateContent_cong:
  assumes "get_prop (parsePrompt e p) ''text'' =
           get_prop (parsePrompt (e\<lparr>generateContent := g\<rparr>) p) ''text''"
  shows "pipeline e f p w = pipeline (e\<lparr>generateContent := g\<rparr>) f p w"
  unfolding pipeline_def generateContent_update_ignored parsePrompt_op_def call_Operation
    fst_conv snd_conv prod.case assms [symmetric] ..

text \<open>The handler is never given a file: whatever the route answers through the handler,
  it answers on a request without \<open>req.file\<close>.\<close>

lemma staged_file_never_delivered:
  "post_process e rq fs0 = Answered r \<Longrightarrow>
   r = process e \<lparr>req_file = None, body_prompt = prompt_field rq\<rparr> fs0"
  by (auto simp: post_process_def upload_single_def handleFile_def destination_def
      filename_def split: option.splits prod.splits bool.splits middleware.splits
      if_splits)

subsection \<open>The example runs\<close>

lemma example_request_file: "req_file example_request = Some example_upload"
  by (simp add: example_request_def)

lemma trimmed_prompt_example: "trimmed_prompt example_request = Inr ''make it blue''"
  by (simp add: trimmed_prompt_def example_request_def js_or_def truthy_def js_trim_def
      trim_def js_whitespace_def)

lemma example_prompt_nonempty: "''make it blue'' \<noteq> []"
  by simp

lemma example_upload_staged: "example_fs (path example_upload) = Some (Uploaded ''PNG'')"
  by (simp add: example_fs_def example_upload_def)

lemma example_path: "path example_upload = ''storage/17-ab.png''"
  by (simp add: example_upload_def)

lemma previewPath_examples:
  "previewPath example_env example_upload = ''storage/preview-17-ab.png.webp''"
  "previewPath image_down_env example_upload = ''storage/preview-17-ab.png.webp''"
  "previewPath text_down_env example_upload = ''storage/preview-17-ab.png.webp''"
  "previewPath no_text_env example_upload = ''storage/preview-17-ab.png.webp''"
  by (simp_all add: previewPath_def image_down_env_def text_down_env_def no_text_env_def
      example_env_def example_upload_def basename_def path_join_def)

lemma outPath_examples:
  "outPath example_env = ''storage/out-1700000000123-3f2a.png''"
  "outPath text_down_env = ''storage/out-1700000000123-3f2a.png''"
  "outPath no_text_env = ''storage/out-1700000000123-3f2a.png''"
  by (simp_all add: outPath_def outFilename_def text_down_env_def no_text_env_def
      example_env_def path_join_def show_nat.simps digit_def)

lemma example_run:
  "response (process example_env example_request example_fs) =
     \<lparr>status = 200,
      body = [(''success'', JBool True),
              (''parsed'', JStr ''Recolour: make it blue''),
              (''imageUrl'', JStr ''/storage/out-1700000000123-3f2a.png''),
              (''previewUrl'', JStr ''/storage/preview-17-ab.png.webp'')]\<rparr>"
proof -
  have p: "sharp_toFile example_env (Uploaded ''PNG'') ''storage/preview-17-ab.png.webp'' = None"
    by (simp add: example_env_def)
  have s: "sharp_resize example_env (path example_upload)
             (previewPath example_env example_upload) example_fs =
           Inr (example_fs(''storage/preview-17-ab.png.webp'' \<mapsto> Resized (Uploaded ''PNG'')))"
    using sharp_resize_ok [where ?fs0.0 = example_fs and src = "path example_upload"
        and e = example_env and dst = "''storage/preview-17-ab.png.webp''",
        OF example_upload_staged p]
    by (simp add: previewPath_examples)
  have b: "Buffer_from (get_prop (editImage example_env (path example_upload)
             (get_prop (parsePrompt example_env ''make it blue'') ''text'')) ''imageBase64'')
           = Inr (Base64 ''aGVsbG8='')"
    by (simp add: editImage_def parsePrompt_def example_env_def get_prop_def Buffer_from_def)
  have w: "writeFileSync example_env (outPath example_env) (Base64 ''aGVsbG8='')
             (example_fs(''storage/preview-17-ab.png.webp'' \<mapsto> Resized (Uploaded ''PNG''))) =
           Inr (example_fs(''storage/preview-17-ab.png.webp'' \<mapsto> Resized (Uploaded ''PNG''),
                  outPath example_env \<mapsto> Base64 ''aGVsbG8=''))"
    by (simp add: writeFileSync_def example_env_def)
  have t: "get_prop (parsePrompt example_env ''make it blue'') ''text''
             = JStr ''Recolour: make it blue''"
    by (simp add: parsePrompt_def example_env_def get_prop_def)
  have o: "outFilename example_env = ''out-1700000000123-3f2a.png''"
    by (simp add: outFilename_def example_env_def show_nat.simps digit_def)
  have n: "basename ''storage/preview-17-ab.png.webp'' = ''preview-17-ab.png.webp''"
    by (simp add: basename_def)
  show ?thesis
    using pipeline_succeeds [OF s b w]
      process_valid [OF example_request_file trimmed_prompt_example example_prompt_nonempty,
        of example_env example_fs]
    by (simp add: finish_sel t o n previewPath_examples)
qed

section \<open>The claims\<close>

subsection \<open>C1: the successful request\<close>

text \<open>
  Claim C1 says that a request with a valid upload and a prompt, both calls succeeding, is
  answered 200 with the two URLs. On the route it gets no answer. The upload
  \<open>cat.png\<close> of type \<open>image/png\<close> passes the filter and \<open>destination\<close> calls
  its callback with the storage directory; \<open>filename\<close> computes the name and returns
  it without calling its callback, so the disk storage never writes the file, the
  middleware never passes the request on, and the handler is not entered.
\<close>

theorem accepted_upload_gets_no_answer:
  "fileFilter example_part = (None, True)
   \<and> destination example_env example_part = Called None ''storage''
   \<and> filename example_env example_part = (''1700000000123-3f2a.png'', NeverCalled)
   \<and> upload_single example_env example_incoming Map.empty = Hangs
   \<and> post_process example_env example_incoming Map.empty = NoAnswer"
proof -
  have a: "fileFilter example_part = (None, True)"
    by (simp add: fileFilter_def example_part_def mime_regex_def mime_words_def
        starts_with_def)
  have d: "destination example_env example_part = Called None ''storage''"
    by (simp add: destination_def example_env_def)
  have n: "filename example_env example_part = (''1700000000123-3f2a.png'', NeverCalled)"
    by (simp add: filename_def example_env_def example_part_def show_nat.simps digit_def
        extname_def basename_def)
  have h: "handleFile example_env example_part ''PNG'' Map.empty = Pending"
    by (simp add: handleFile_def d n)
  have u: "upload_single example_env example_incoming Map.empty = Hangs"
    by (simp add: upload_single_def example_incoming_def a h)
  show ?thesis
    using a d n u by (simp add: post_process_def)
qed

subsection \<open>C2: the rejected request\<close>

text \<open>
  Claim C2, as amended. When the handler is entered without a file, and the prompt field
  is absent, a string (whatever it holds) or another falsy value, it answers 400 with the
  message that prompt and image are required; the response is the only event of the run
  and the storage directory is unchanged, so no preview and no output file is created.
  When the prompt is a truthy value that is not a string, \<open>.trim()\<close> throws and the
  \<open>catch\<close> block answers 500, again without touching the directory.
\<close>

theorem validation_failure:
  assumes nofile: "req_file req = None"
  shows "response (process e req fs0) =
           (if (\<exists>s. body_prompt req = JStr s) \<or> \<not> truthy (body_prompt req)
            then \<lparr>status = 400, body = [(''error'', JStr ''Prompt and image are required.'')]\<rparr>
            else \<lparr>status = 500,
                  body = [(''error'', JStr ''Server error''),
                          (''message'', JStr (''(req.body.prompt || '' @ [CHR 0x22, CHR 0x22] @
                                               '').trim is not a function''))]\<rparr>)
         \<and> files (process e req fs0) = fs0
         \<and> trace (process e req fs0) = [EvRespond (response (process e req fs0))]"
proof (cases "(\<exists>s. body_prompt req = JStr s) \<or> \<not> truthy (body_prompt req)")
  case True
  then obtain p where p: "trimmed_prompt req = Inr p"
    using trimmed_prompt_text trimmed_prompt_falsy by blast
  have "process e req fs0 = finish bad_request fs0 []"
    using p nofile by (simp add: process_def init_spans respond_spans)
  then show ?thesis
    using True by (simp add: finish_sel bad_request_def)
next
  case False
  then have "trimmed_prompt req =
     Inl (JsError ''TypeError''
       (''(req.body.prompt || '' @ [CHR 0x22, CHR 0x22] @ '').trim is not a function''))"
    using trimmed_prompt_throws by blast
  then have "process e req fs0 =
     finish (server_error (JsError ''TypeError''
       (''(req.body.prompt || '' @ [CHR 0x22, CHR 0x22] @ '').trim is not a function''))) fs0 []"
    by (simp add: process_def init_spans respond_spans)
  then show ?thesis
    using False by (simp add: finish_sel server_error_def)
qed

theorem validation_failure_witness:
  "req_file fileless_request = None
   \<and> response (process example_env fileless_request example_fs) =
        \<lparr>status = 400, body = [(''error'', JStr ''Prompt and image are required.'')]\<rparr>
   \<and> files (process example_env fileless_request example_fs) = example_fs
   \<and> trace (process example_env fileless_request example_fs) =
        [EvRespond \<lparr>status = 400,
                    body = [(''error'', JStr ''Prompt and image are required.'')]\<rparr>]"
proof -
  have n: "req_file fileless_request = None"
    by (simp add: fileless_request_def)
  have b: "body_prompt fileless_request = JStr ''make it blue''"
    by (simp add: fileless_request_def)
  show ?thesis
    using validation_failure [OF n, of example_env example_fs] n
    by (simp add: b)
qed

text \<open>
  As stated the claim does not hold: a request without a file whose prompt is the JSON
  number 5, or the array of a repeated field, reaches the handler and is answered 500.
\<close>

theorem validation_failure_counterexample:
  "image_part fileless_incoming = None
   \<and> post_process example_env fileless_incoming Map.empty =
       Answered (process example_env number_prompt_request Map.empty)
   \<and> req_file number_prompt_request = None
   \<and> status (response (process example_env number_prompt_request Map.empty)) = 500
   \<and> req_file repeated_prompt_request = None
   \<and> status (response (process example_env repeated_prompt_request Map.empty)) = 500"
proof -
  have r: "post_process example_env fileless_incoming Map.empty =
       Answered (process example_env number_prompt_request Map.empty)"
    by (simp add: post_process_def upload_single_def fileless_incoming_def
        number_prompt_request_def)
  have t1: "trimmed_prompt number_prompt_request =
     Inl (JsError ''TypeError''
       (''(req.body.prompt || '' @ [CHR 0x22, CHR 0x22] @ '').trim is not a function''))"
    by (rule trimmed_prompt_throws) (simp_all add: number_prompt_request_def truthy_def)
  have t2: "trimmed_prompt repeated_prompt_request =
     Inl (JsError ''TypeError''
       (''(req.body.prompt || '' @ [CHR 0x22, CHR 0x22] @ '').trim is not a function''))"
    by (rule trimmed_prompt_throws) (simp_all add: repeated_prompt_request_def truthy_def)
  have s1: "status (response (process example_env number_prompt_request Map.empty)) = 500"
    by (simp add: process_def t1 init_spans respond_spans finish_sel server_error_def)
  have s2: "status (response (process example_env repeated_prompt_request Map.empty)) = 500"
    by (simp add: process_def t2 init_spans respond_spans finish_sel server_error_def)
  show ?thesis
    using r s1 s2
    by (simp add: fileless_incoming_def number_prompt_request_def repeated_prompt_request_def)
qed

subsection \<open>C3 and C4: the image model fails\<close>

text \<open>
  Claim C3. For a request that passes validation, when \<open>editImage\<close> takes its fallback,
  the request ends with status 500 or an output file is written. No guard stands between
  the fallback and the decoding: once the preview is generated, the payload that reaches
  \<open>Buffer.from\<close> is the fallback's \<open>null\<close>, the error \<open>Buffer.from\<close> throws on
  it is the error the \<open>catch\<close> block answers with (the response carries its message),
  and the response follows the edit call directly.
\<close>

theorem image_fallback_fails_or_corrupts:
  assumes upl: "req_file req = Some f"
    and prompt: "trimmed_prompt req = Inr p" "p \<noteq> []"
    and fallback: "generateImage e (path f) (get_prop (parsePrompt e p) ''text'') = Throws msg"
  shows "(status (response (process e req fs0)) = 500
          \<or> (\<exists>c. EvWrite (outPath e) c \<in> set (trace (process e req fs0))
                  \<and> files (process e req fs0) (outPath e) = Some c))
         \<and> (\<forall>fs1. sharp_resize e (path f) (previewPath e f) fs0 = Inr fs1 \<longrightarrow>
               Buffer_from (get_prop (editImage e (path f)
                  (get_prop (parsePrompt e p) ''text'')) ''imageBase64'') = Inl null_payload_error
               \<and> response (process e req fs0) = server_error null_payload_error
               \<and> get_prop (body (response (process e req fs0))) ''message'' =
                   JStr (err_message null_payload_error)
               \<and> trace (process e req fs0) =
                   [EvPreview (path f) (previewPath e f), EvTextCall p,
                    EvEditCall (path f) (get_prop (parsePrompt e p) ''text''),
                    EvRespond (server_error null_payload_error)])"
proof -
  note v = process_valid [OF upl prompt]
  note b = Buffer_from_fallback [OF fallback]
  have one: "status (response (process e req fs0)) = 500"
  proof (cases "sharp_resize e (path f) (previewPath e f) fs0")
    case (Inl err)
    then show ?thesis
      using pipeline_preview_fails [OF Inl] by (simp add: v finish_sel server_error_def)
  next
    case (Inr fs1)
    then show ?thesis
      using pipeline_decode_fails [OF Inr b] by (simp add: v finish_sel server_error_def)
  qed
  have two: "\<forall>fs1. sharp_resize e (path f) (previewPath e f) fs0 = Inr fs1 \<longrightarrow>
               Buffer_from (get_prop (editImage e (path f)
                  (get_prop (parsePrompt e p) ''text'')) ''imageBase64'') = Inl null_payload_error
               \<and> response (process e req fs0) = server_error null_payload_error
               \<and> get_prop (body (response (process e req fs0))) ''message'' =
                   JStr (err_message null_payload_error)
               \<and> trace (process e req fs0) =
                   [EvPreview (path f) (previewPath e f), EvTextCall p,
                    EvEditCall (path f) (get_prop (parsePrompt e p) ''text''),
                    EvRespond (server_error null_payload_error)]"
  proof (intro allI impI)
    fix fs1
    assume s: "sharp_resize e (path f) (previewPath e f) fs0 = Inr fs1"
    have m: "get_prop (body (server_error null_payload_error)) ''message'' =
               JStr (err_message null_payload_error)"
      by (simp add: server_error_def get_prop_Cons null_payload_error_def)
    show "Buffer_from (get_prop (editImage e (path f)
                  (get_prop (parsePrompt e p) ''text'')) ''imageBase64'') = Inl null_payload_error
               \<and> response (process e req fs0) = server_error null_payload_error
               \<and> get_prop (body (response (process e req fs0))) ''message'' =
                   JStr (err_message null_payload_error)
               \<and> trace (process e req fs0) =
                   [EvPreview (path f) (previewPath e f), EvTextCall p,
                    EvEditCall (path f) (get_prop (parsePrompt e p) ''text''),
                    EvRespond (server_error null_payload_error)]"
      using pipeline_decode_fails [OF s b] b m by (simp add: v finish_sel)
  qed
  show ?thesis
    using one two by blast
qed

theorem image_fallback_fails_or_corrupts_witness:
  "req_file example_request = Some example_upload
   \<and> trimmed_prompt example_request = Inr ''make it blue''
   \<and> generateImage image_down_env (path example_upload)
         (get_prop (parsePrompt image_down_env ''make it blue'') ''text'')
       = Throws ''429 Too Many Requests''
   \<and> sharp_resize image_down_env (path example_upload)
         (previewPath image_down_env example_upload) example_fs
       = Inr (example_fs(''storage/preview-17-ab.png.webp'' \<mapsto> Resized (Uploaded ''PNG'')))
   \<and> response (process image_down_env example_request example_fs) =
       \<lparr>status = 500,
        body = [(''error'', JStr ''Server error''),
                (''message'', JStr (''The first argument must be of type string or an instance of Buffer, '' @
                   ''ArrayBuffer, or Array or an Array-like Object. Received null''))]\<rparr>"
proof -
  have h: "generateImage image_down_env (path example_upload)
         (get_prop (parsePrompt image_down_env ''make it blue'') ''text'')
       = Throws ''429 Too Many Requests''"
    by (simp add: image_down_env_def)
  have p: "sharp_toFile image_down_env (Uploaded ''PNG'')
             (previewPath image_down_env example_upload) = None"
    by (simp add: image_down_env_def example_env_def)
  have s: "sharp_resize image_down_env (path example_upload)
         (previewPath image_down_env example_upload) example_fs
       = Inr (example_fs(''storage/preview-17-ab.png.webp'' \<mapsto> Resized (Uploaded ''PNG'')))"
    using sharp_resize_ok [where ?fs0.0 = example_fs and src = "path example_upload"
        and e = image_down_env and dst = "previewPath image_down_env example_upload",
        OF example_upload_staged p]
    by (simp add: previewPath_examples)
  note T = image_fallback_fails_or_corrupts [where ?fs0.0 = example_fs,
      OF example_request_file trimmed_prompt_example example_prompt_nonempty h]
  have r: "response (process image_down_env example_request example_fs) =
             server_error null_payload_error"
    using T [THEN conjunct2] s by blast
  show ?thesis
    using example_request_file trimmed_prompt_example h s r
    by (simp add: server_error_def null_payload_error_def)
qed

text \<open>
  Claim C4. Which of the two it is: when \<open>editImage\<close> returns its fallback (so the
  preview was generated before), \<open>Buffer.from(null, 'base64')\<close> throws before any
  write of an output file is issued; the request ends with status 500, no output write
  occurs in the run, and the storage directory is the one before the request plus the
  preview file.
\<close>

theorem image_fallback_is_500:
  assumes upl: "req_file req = Some f"
    and prompt: "trimmed_prompt req = Inr p" "p \<noteq> []"
    and staged: "fs0 (path f) = Some c"
    and preview: "sharp_toFile e c (previewPath e f) = None"
    and fallback: "generateImage e (path f) (get_prop (parsePrompt e p) ''text'') = Throws msg"
  shows "status (response (process e req fs0)) = 500
         \<and> (\<forall>q b. EvWrite q b \<notin> set (trace (process e req fs0)))
         \<and> files (process e req fs0) = fs0(previewPath e f \<mapsto> Resized c)
         \<and> trace (process e req fs0) =
             [EvPreview (path f) (previewPath e f), EvTextCall p,
              EvEditCall (path f) (get_prop (parsePrompt e p) ''text''),
              EvRespond (response (process e req fs0))]"
proof -
  have s: "sharp_resize e (path f) (previewPath e f) fs0 = Inr (fs0(previewPath e f \<mapsto> Resized c))"
    using staged preview by (rule sharp_resize_ok)
  show ?thesis
    using pipeline_decode_fails [OF s Buffer_from_fallback [OF fallback]]
      process_valid [OF upl prompt]
    by (simp add: finish_sel server_error_def)
qed

theorem image_fallback_is_500_witness:
  "req_file example_request = Some example_upload
   \<and> trimmed_prompt example_request = Inr ''make it blue''
   \<and> example_fs (path example_upload) = Some (Uploaded ''PNG'')
   \<and> generateImage image_down_env (path example_upload)
         (get_prop (parsePrompt image_down_env ''make it blue'') ''text'')
       = Throws ''429 Too Many Requests''
   \<and> status (response (process image_down_env example_request example_fs)) = 500
   \<and> (\<forall>p b. EvWrite p b \<notin> set (trace (process image_down_env example_request example_fs)))
   \<and> files (process image_down_env example_request example_fs) =
       example_fs(''storage/preview-17-ab.png.webp'' \<mapsto> Resized (Uploaded ''PNG''))"
proof -
  have h: "generateImage image_down_env (path example_upload)
         (get_prop (parsePrompt image_down_env ''make it blue'') ''text'')
       = Throws ''429 Too Many Requests''"
    by (simp add: image_down_env_def)
  have p: "sharp_toFile image_down_env (Uploaded ''PNG'')
             (previewPath image_down_env example_upload) = None"
    by (simp add: image_down_env_def example_env_def)
  note T = image_fallback_is_500 [where ?fs0.0 = example_fs,
      OF example_request_file trimmed_prompt_example example_prompt_nonempty
      example_upload_staged p h]
  have f: "files (process image_down_env example_request example_fs) =
       example_fs(''storage/preview-17-ab.png.webp'' \<mapsto> Resized (Uploaded ''PNG''))"
    using T by (simp add: previewPath_examples)
  show ?thesis
    using T f example_request_file trimmed_prompt_example example_upload_staged h
    by blast
qed

subsection \<open>C5: the text model fails\<close>

text \<open>
  Claim C5. For a request that passes validation and whose preview is generated, when the
  text call fails: the fallback carries the trimmed prompt as \<open>text\<close>; the image-edit
  client is called with it; a 200 response carries it as \<open>parsed\<close>, and the response
  is 200 whenever the image call returns a string payload and the write does not fail;
  and the whole run (response, files, log) is the one a text model echoing the prompt
  would give, so the failure is not visible to the caller.
\<close>

theorem text_fallback_proceeds:
  assumes upl: "req_file req = Some f"
    and prompt: "trimmed_prompt req = Inr p" "p \<noteq> []"
    and staged: "fs0 (path f) = Some c"
    and preview: "sharp_toFile e c (previewPath e f) = None"
    and tfail: "generateContent e p = Throws msg"
  shows "get_prop (parsePrompt e p) ''text'' = JStr p
         \<and> EvEditCall (path f) (JStr p) \<in> set (trace (process e req fs0))
         \<and> (status (response (process e req fs0)) = 200 \<longrightarrow>
              get_prop (body (response (process e req fs0))) ''parsed'' = JStr p)
         \<and> (\<forall>iresp b64.
               generateImage e (path f) (JStr p) = Returns iresp \<longrightarrow>
               get_prop iresp ''imageBase64'' = JStr b64 \<longrightarrow>
               writeFile_error e (outPath e) (Base64 b64) = None \<longrightarrow>
               status (response (process e req fs0)) = 200)
         \<and> process e req fs0 =
             process (e\<lparr>generateContent := (\<lambda>p. Returns [(''text'', JStr p)])\<rparr>) req fs0"
proof -
  let ?fs1 = "fs0(previewPath e f \<mapsto> Resized c)"
  let ?e' = "e\<lparr>generateContent := (\<lambda>p. Returns [(''text'', JStr p)])\<rparr>"
  have t: "get_prop (parsePrompt e p) ''text'' = JStr p"
    using tfail by (simp add: parsePrompt_def get_prop_def)
  have t': "get_prop (parsePrompt ?e' p) ''text'' = JStr p"
    by (simp add: parsePrompt_def get_prop_def)
  have v: "process e req fs0 = pipeline e f p (init fs0)"
    by (rule process_valid [OF upl prompt])
  have s: "sharp_resize e (path f) (previewPath e f) fs0 = Inr ?fs1"
    using staged preview by (rule sharp_resize_ok)
  have ev: "EvEditCall (path f) (JStr p) \<in> set (trace (pipeline e f p (init fs0)))"
    using s by (cases rule: pipeline_after_preview [where p = p]) (simp_all add: finish_sel t)
  have parsed: "status (response (pipeline e f p (init fs0))) = 200 \<longrightarrow>
      get_prop (body (response (pipeline e f p (init fs0)))) ''parsed'' = JStr p"
    using s by (cases rule: pipeline_after_preview [where p = p])
      (simp_all add: finish_sel t server_error_def get_prop_Cons)
  have ok: "\<forall>iresp b64.
               generateImage e (path f) (JStr p) = Returns iresp \<longrightarrow>
               get_prop iresp ''imageBase64'' = JStr b64 \<longrightarrow>
               writeFile_error e (outPath e) (Base64 b64) = None \<longrightarrow>
               status (response (pipeline e f p (init fs0))) = 200"
  proof (intro allI impI)
    fix iresp b64
    assume g: "generateImage e (path f) (JStr p) = Returns iresp"
      and b: "get_prop iresp ''imageBase64'' = JStr b64"
      and w: "writeFile_error e (outPath e) (Base64 b64) = None"
    have d: "Buffer_from (get_prop (editImage e (path f)
               (get_prop (parsePrompt e p) ''text'')) ''imageBase64'') = Inr (Base64 b64)"
      using g b by (simp add: t editImage_def Buffer_from_def)
    have wr: "writeFileSync e (outPath e) (Base64 b64) ?fs1 =
                Inr (?fs1(outPath e \<mapsto> Base64 b64))"
      using w by (simp add: writeFileSync_def)
    show "status (response (pipeline e f p (init fs0))) = 200"
      using pipeline_succeeds [OF s d wr] by (simp add: finish_sel)
  qed
  have same: "pipeline e f p (init fs0) = pipeline ?e' f p (init fs0)"
    by (rule pipeline_generateContent_cong) (simp add: t t')
  have p': "trimmed_prompt req = Inr p"
    by (rule prompt)
  have v': "process ?e' req fs0 = pipeline ?e' f p (init fs0)"
    by (rule process_valid [OF upl prompt])
  show ?thesis
    using t ev parsed ok same by (simp only: v v')
qed

theorem text_fallback_proceeds_witness:
  "req_file example_request = Some example_upload
   \<and> trimmed_prompt example_request = Inr ''make it blue''
   \<and> example_fs (path example_upload) = Some (Uploaded ''PNG'')
   \<and> generateContent text_down_env ''make it blue'' = Throws ''503 Service Unavailable''
   \<and> EvEditCall ''storage/17-ab.png'' (JStr ''make it blue'')
       \<in> set (trace (process text_down_env example_request example_fs))
   \<and> status (response (process text_down_env example_request example_fs)) = 200
   \<and> get_prop (body (response (process text_down_env example_request example_fs))) ''parsed''
       = JStr ''make it blue''"
proof -
  have h: "generateContent text_down_env ''make it blue'' = Throws ''503 Service Unavailable''"
    by (simp add: text_down_env_def)
  have p: "sharp_toFile text_down_env (Uploaded ''PNG'')
             (previewPath text_down_env example_upload) = None"
    by (simp add: text_down_env_def example_env_def)
  note T = text_fallback_proceeds [where ?fs0.0 = example_fs,
      OF example_request_file trimmed_prompt_example example_prompt_nonempty
      example_upload_staged p h]
  have g: "generateImage text_down_env (path example_upload) (JStr ''make it blue'')
           = Returns [(''imageBase64'', JStr ''aGVsbG8='')]"
    by (simp add: text_down_env_def example_env_def)
  have b: "get_prop [(''imageBase64'', JStr ''aGVsbG8='')] ''imageBase64'' = JStr ''aGVsbG8=''"
    by (simp add: get_prop_Cons)
  have w: "writeFile_error text_down_env (outPath text_down_env) (Base64 ''aGVsbG8='') = None"
    by (simp add: text_down_env_def example_env_def)
  have ok: "status (response (process text_down_env example_request example_fs)) = 200"
    using T [THEN conjunct2, THEN conjunct2, THEN conjunct2, THEN conjunct1] g b w by blast
  have ev: "EvEditCall ''storage/17-ab.png'' (JStr ''make it blue'')
       \<in> set (trace (process text_down_env example_request example_fs))"
    using T [THEN conjunct2, THEN conjunct1] by (simp add: example_path)
  have parsed: "get_prop (body (response (process text_down_env example_request example_fs)))
       ''parsed'' = JStr ''make it blue''"
    using T [THEN conjunct2, THEN conjunct2, THEN conjunct1] ok by simp
  show ?thesis
    using example_request_file trimmed_prompt_example example_upload_staged h ev ok parsed
    by blast
qed

subsection \<open>C6: the upload filter\<close>

text \<open>
  Claim C6 says that a file whose MIME type and extension are both outside
  \<open>{jpg, jpeg, png, webp}\<close> is rejected. The filter tests the MIME type with an
  unanchored pattern, so a MIME type that merely contains one of the four words passes:
  the upload \<open>bundle.js\<close> of type \<open>application/x-webpack\<close> has both its subtype and
  its extension outside the set, the (anchored) test of the file name fails on it, the
  test of the MIME type succeeds on \<open>webp\<close>, and the filter accepts it.
\<close>

theorem fileFilter_accepts_outside_formats:
  "outside_formats webpack_upload
   \<and> mime_regex (mimetype webpack_upload)
   \<and> \<not> name_regex (originalname webpack_upload)
   \<and> fileFilter webpack_upload = (None, True)"
  by (simp add: outside_formats_def webpack_upload_def mime_subtype_def extension_def
      image_formats_def to_lower_def fileFilter_def mime_regex_def mime_words_def
      starts_with_def name_regex_def name_suffixes_def ends_with_ci_def)

subsection \<open>C7: the health route\<close>

text \<open>
  Claim C7, as amended. A \<open>GET /health\<close> request that the rate limiter lets through is
  answered 200 with \<open>{status: "ok", ts}\<close>, where \<open>ts\<close> is the reading of the clock;
  a request the limiter stops does not reach the handler. Across two calls \<open>ts\<close> is
  ordered as the two readings are: it does not decrease when the clock does not, and it
  increases strictly exactly when the second reading is later than the first.
\<close>

theorem health_ts_follows_clock:
  "(admitted \<longrightarrow>
      get_health admitted now =
        Handled \<lparr>status = 200, body = [(''status'', JStr ''ok''), (''ts'', JNum (int now))]\<rparr>)
   \<and> (\<not> admitted \<longrightarrow> get_health admitted now = RateLimited)
   \<and> ts_of (health now) = int now
   \<and> (t1 \<le> t2 \<longrightarrow> ts_of (health t1) \<le> ts_of (health t2))
   \<and> (ts_of (health t1) < ts_of (health t2) \<longleftrightarrow> t1 < t2)"
  by (simp add: get_health_def health_def ts_of_def get_prop_Cons)

theorem health_ts_follows_clock_witness:
  "get_health True 1700000000123 =
        Handled \<lparr>status = 200, body = [(''status'', JStr ''ok''), (''ts'', JNum 1700000000123)]\<rparr>
   \<and> (1700000000123::nat) \<le> 1700000000200
   \<and> ts_of (health 1700000000123) \<le> ts_of (health 1700000000200)
   \<and> ts_of (health 1700000000123) < ts_of (health 1700000000200)"
  using health_ts_follows_clock [of True 1700000000123 1700000000123 1700000000200]
  by simp

text \<open>
  As stated the claim does not hold: two calls served within the same millisecond read
  the same clock value and return the same \<open>ts\<close>, and a request over the limit is not
  answered by the handler.
\<close>

theorem health_ts_counterexample:
  "get_health True 1700000000123 = Handled (health 1700000000123)
   \<and> status (health 1700000000123) = 200
   \<and> \<not> ts_of (health 1700000000123) < ts_of (health 1700000000123)
   \<and> get_health False 1700000000124 = RateLimited"
  by (simp add: get_health_def health_def)

subsection \<open>C8: success only after the write\<close>

text \<open>
  Claim C8. For every request: if the response carries \<open>success: true\<close>, then the last
  event before the response is the write of the output file, that write did not fail, and
  the file is in the storage directory with the bytes written; and whenever a write of
  the output file is issued and fails, the response is the 500 of the \<open>catch\<close> block,
  without a \<open>success\<close> property.
\<close>

theorem success_only_after_write:
  "(get_prop (body (response (process e req fs0))) ''success'' = JBool True \<longrightarrow>
      (\<exists>pre c. trace (process e req fs0) =
                 pre @ [EvWrite (outPath e) c, EvRespond (response (process e req fs0))]
             \<and> files (process e req fs0) (outPath e) = Some c
             \<and> writeFile_error e (outPath e) c = None))
   \<and> (\<forall>p c msg. EvWrite p c \<in> set (trace (process e req fs0)) \<longrightarrow>
          writeFile_error e p c = Some msg \<longrightarrow>
          status (response (process e req fs0)) = 500
          \<and> get_prop (body (response (process e req fs0))) ''success'' = JUndefined)"
proof (cases e req fs0 rule: process_cases)
  case (write_failed f p fs1 buffer err)
  then show ?thesis
    by (auto simp: finish_sel server_error_def get_prop_Cons get_prop_Nil
        dest: writeFileSync_Inl)
next
  case (succeeded f p fs1 buffer fs2)
  then show ?thesis
    by (auto simp: finish_sel get_prop_Cons dest!: writeFileSync_Inr)
qed (simp_all add: finish_sel bad_request_def server_error_def get_prop_Cons get_prop_Nil)

theorem success_only_after_write_witness:
  "get_prop (body (response (process example_env example_request example_fs))) ''success''
     = JBool True
   \<and> (\<exists>pre c. trace (process example_env example_request example_fs) =
                 pre @ [EvWrite ''storage/out-1700000000123-3f2a.png'' c,
                        EvRespond (response (process example_env example_request example_fs))]
             \<and> files (process example_env example_request example_fs)
                  ''storage/out-1700000000123-3f2a.png'' = Some c
             \<and> writeFile_error example_env ''storage/out-1700000000123-3f2a.png'' c = None)"
proof -
  have s: "get_prop (body (response (process example_env example_request example_fs)))
             ''success'' = JBool True"
    by (simp add: example_run get_prop_Cons)
  show ?thesis
    using success_only_after_write [of example_env example_request example_fs] s
    by (simp add: outPath_examples)
qed

subsection \<open>C9: the steps in sequence\<close>

text \<open>
  Claim C9. In every run of the handler: each call has ended before the next one begins
  (the log is a sequence of begin-end pairs, so no two steps overlap); the calls occur in
  the order validate, preview, text call, image call, persist, respond; and a step is
  begun exactly when the steps before it have completed without throwing. The preview
  is begun when validation has passed; the text call, and after it the image call with
  the text it returned, when the preview has been written; the write of the output, with
  the bytes decoded from the image call's payload, when the decoding has succeeded; and
  the response ends every run.
\<close>

theorem steps_in_strict_sequence:
  "timeline (process e req fs0) = spans (trace (process e req fs0))
   \<and> sorted_wrt (<) (map step_of (trace (process e req fs0)))
   \<and> trace (process e req fs0) =
       (case trimmed_prompt req of
          Inl err \<Rightarrow> []
        | Inr prompt \<Rightarrow>
            (case req_file req of
               None \<Rightarrow> []
             | Some f \<Rightarrow>
                 if prompt = [] then [EvUnlink (path f)]
                 else EvPreview (path f) (previewPath e f) #
                   (case sharp_resize e (path f) (previewPath e f) fs0 of
                      Inl err \<Rightarrow> []
                    | Inr fs1 \<Rightarrow>
                        EvTextCall prompt #
                        EvEditCall (path f) (get_prop (parsePrompt e prompt) ''text'') #
                        (case Buffer_from (get_prop (editImage e (path f)
                                (get_prop (parsePrompt e prompt) ''text'')) ''imageBase64'') of
                           Inl err \<Rightarrow> []
                         | Inr buffer \<Rightarrow> [EvWrite (outPath e) buffer]))))
       @ [EvRespond (response (process e req fs0))]"
  by (cases e req fs0 rule: process_cases) (simp_all add: finish_sel)

subsection \<open>C10: a text response without text\<close>

text \<open>
  Claim C10. \<open>parsePrompt\<close> returns the response of the text model as it is. So for a
  request that passes validation and whose preview is generated, when the text model
  returns an object without a \<open>text\<close> property: the image-edit client is called with
  \<open>undefined\<close> as its instructions; a 200 response has \<open>parsed\<close> undefined, and the
  serialised body has no \<open>parsed\<close> property; and the response is 200 whenever the image
  call returns a string payload and the write does not fail, so no error is raised for
  the missing text.
\<close>

theorem missing_text_passes_through:
  assumes upl: "req_file req = Some f"
    and prompt: "trimmed_prompt req = Inr p" "p \<noteq> []"
    and staged: "fs0 (path f) = Some c"
    and preview: "sharp_toFile e c (previewPath e f) = None"
    and tcall: "generateContent e p = Returns tresp"
    and notext: "map_of tresp ''text'' = None"
  shows "parsePrompt e p = tresp
         \<and> EvEditCall (path f) JUndefined \<in> set (trace (process e req fs0))
         \<and> (status (response (process e req fs0)) = 200 \<longrightarrow>
              get_prop (body (response (process e req fs0))) ''parsed'' = JUndefined
              \<and> ''parsed'' \<notin> set (map fst (json_props (body (response (process e req fs0))))))
         \<and> (\<forall>iresp b64.
               generateImage e (path f) JUndefined = Returns iresp \<longrightarrow>
               get_prop iresp ''imageBase64'' = JStr b64 \<longrightarrow>
               writeFile_error e (outPath e) (Base64 b64) = None \<longrightarrow>
               status (response (process e req fs0)) = 200)"
proof -
  let ?fs1 = "fs0(previewPath e f \<mapsto> Resized c)"
  have pp: "parsePrompt e p = tresp"
    using tcall by (simp add: parsePrompt_def)
  have t: "get_prop (parsePrompt e p) ''text'' = JUndefined"
    using notext by (simp add: pp get_prop_def)
  have v: "process e req fs0 = pipeline e f p (init fs0)"
    by (rule process_valid [OF upl prompt])
  have s: "sharp_resize e (path f) (previewPath e f) fs0 = Inr ?fs1"
    using staged preview by (rule sharp_resize_ok)
  have ev: "EvEditCall (path f) JUndefined \<in> set (trace (pipeline e f p (init fs0)))"
    using s by (cases rule: pipeline_after_preview [where p = p]) (simp_all add: finish_sel t)
  have parsed: "status (response (pipeline e f p (init fs0))) = 200 \<longrightarrow>
      get_prop (body (response (pipeline e f p (init fs0)))) ''parsed'' = JUndefined
      \<and> ''parsed'' \<notin> set (map fst (json_props (body (response (pipeline e f p (init fs0))))))"
    using s by (cases rule: pipeline_after_preview [where p = p])
      (simp_all add: finish_sel t server_error_def get_prop_Cons json_props_success)
  have ok: "\<forall>iresp b64.
               generateImage e (path f) JUndefined = Returns iresp \<longrightarrow>
               get_prop iresp ''imageBase64'' = JStr b64 \<longrightarrow>
               writeFile_error e (outPath e) (Base64 b64) = None \<longrightarrow>
               status (response (pipeline e f p (init fs0))) = 200"
  proof (intro allI impI)
    fix iresp b64
    assume g: "generateImage e (path f) JUndefined = Returns iresp"
      and b: "get_prop iresp ''imageBase64'' = JStr b64"
      and w: "writeFile_error e (outPath e) (Base64 b64) = None"
    have d: "Buffer_from (get_prop (editImage e (path f)
               (get_prop (parsePrompt e p) ''text'')) ''imageBase64'') = Inr (Base64 b64)"
      using g b by (simp add: t editImage_def Buffer_from_def)
    have wr: "writeFileSync e (outPath e) (Base64 b64) ?fs1 =
                Inr (?fs1(outPath e \<mapsto> Base64 b64))"
      using w by (simp add: writeFileSync_def)
    show "status (response (pipeline e f p (init fs0))) = 200"
      using pipeline_succeeds [OF s d wr] by (simp add: finish_sel)
  qed
  show ?thesis
    using pp ev parsed ok by (simp only: v)
qed

theorem missing_text_passes_through_witness:
  "req_file example_request = Some example_upload
   \<and> trimmed_prompt example_request = Inr ''make it blue''
   \<and> example_fs (path example_upload) = Some (Uploaded ''PNG'')
   \<and> generateContent no_text_env ''make it blue'' = Returns [(''candidates'', JNull)]
   \<and> map_of [(''candidates'', JNull)] ''text'' = None
   \<and> parsePrompt no_text_env ''make it blue'' = [(''candidates'', JNull)]
   \<and> EvEditCall ''storage/17-ab.png'' JUndefined
       \<in> set (trace (process no_text_env example_request example_fs))
   \<and> status (response (process no_text_env example_request example_fs)) = 200
   \<and> get_prop (body (response (process no_text_env example_request example_fs))) ''parsed''
       = JUndefined
   \<and> ''parsed'' \<notin> set (map fst (json_props
         (body (response (process no_text_env example_request example_fs)))))"
proof -
  have h: "generateContent no_text_env ''make it blue'' = Returns [(''candidates'', JNull)]"
    by (simp add: no_text_env_def)
  have n: "map_of [(''candidates'', JNull)] ''text'' = None"
    by simp
  have p: "sharp_toFile no_text_env (Uploaded ''PNG'')
             (previewPath no_text_env example_upload) = None"
    by (simp add: no_text_env_def example_env_def)
  note T = missing_text_passes_through [where ?fs0.0 = example_fs,
      OF example_request_file trimmed_prompt_example example_prompt_nonempty
      example_upload_staged p h n]
  have g: "generateImage no_text_env (path example_upload) JUndefined
           = Returns [(''imageBase64'', JStr ''aGVsbG8='')]"
    by (simp add: no_text_env_def example_env_def)
  have b: "get_prop [(''imageBase64'', JStr ''aGVsbG8='')] ''imageBase64'' = JStr ''aGVsbG8=''"
    by (simp add: get_prop_Cons)
  have w: "writeFile_error no_text_env (outPath no_text_env) (Base64 ''aGVsbG8='') = None"
    by (simp add: no_text_env_def example_env_def)
  have ok: "status (response (process no_text_env example_request example_fs)) = 200"
    using T g b w by blast
  have ev: "EvEditCall ''storage/17-ab.png'' JUndefined
       \<in> set (trace (process no_text_env example_request example_fs))"
    using T by (simp add: example_path)
  show ?thesis
    using example_request_file trimmed_prompt_example example_upload_staged h n ev ok T
    by blast
qed

end
